theory Spec2Isabelle
  imports Complex_Main
begin

section \<open>Python values and exceptions\<close>

text \<open>
  The values a dict built from JSON holds. Python's floats are modelled as reals here:
  the risk score and its comparisons are stated in exact arithmetic.
\<close>

datatype pyval = PyNone | PyInt int | PyFloat real | PyStr string

datatype py_exn =
    ValueError string
  | TypeError string
  | OverflowError string
  | ZeroDivisionError string
  | HTTPException nat string
  | ClientError string
  | IntegrityError string
  | OperationalError string

text \<open>\<open>d.get(key, default)\<close>\<close>

definition dict_get :: "(string \<rightharpoonup> pyval) \<Rightarrow> string \<Rightarrow> pyval \<Rightarrow> pyval" where
  "dict_get d k dflt = (case d k of None \<Rightarrow> dflt | Some v \<Rightarrow> v)"

text \<open>
  The number an ordering comparison with a numeric literal reads; \<open>None\<close> where
  Python raises TypeError (\<open>None > 10\<close>, \<open>'abc' < 10\<close>).
\<close>

fun py_num :: "pyval \<Rightarrow> real option" where
  "py_num (PyInt i) = Some (of_int i)"
| "py_num (PyFloat x) = Some x"
| "py_num PyNone = None"
| "py_num (PyStr s) = None"

section \<open>The persisted rows (models.py)\<close>

text \<open>
  The columns the services read and write. Float columns are reals, BigInteger columns
  (wei) are integers; \<open>created_at\<close>, \<open>updated_at\<close> and the JSON
  \<open>meta_data\<close> columns, which no modelled function reads back, are left out.
\<close>

record strategy =
  s_id :: int
  s_name :: string
  s_type :: string
  s_contract_address :: string
  s_network :: string
  s_is_active :: bool
  s_apy :: real
  s_tvl :: int
  s_risk_score :: real

record yield_row =
  y_strategy_id :: int
  y_apy :: real
  y_tvl :: int
  y_network :: string
  y_timestamp :: int

text \<open>One entry of \<open>optimal_allocations\<close>, the dict \<open>_modern_portfolio_theory\<close> builds.\<close>

record opt_allocation =
  oa_strategy_id :: int
  oa_name :: string
  oa_type :: string
  oa_contract_address :: string
  oa_network :: string
  oa_amount :: int
  oa_weight :: real
  oa_expected_yield :: real
  oa_risk_score :: real

text \<open>An \<open>OptimizationResult\<close> row; the last three fields are its metadata dict.\<close>

record optimization_row =
  or_user_id :: int
  or_total_amount :: int
  or_optimal_allocations :: "opt_allocation list"
  or_expected_apy :: real
  or_risk_score :: real
  or_risk_tolerance :: real
  or_max_slippage :: real
  or_strategy_count :: nat

record database =
  strategies :: "strategy list"
  yield_data :: "yield_row list"
  optimization_results :: "optimization_row list"

text \<open>
  A \<open>BigInteger\<close> column holds a signed 64-bit integer: a row with a value outside
  this range is refused when it is flushed, and the call that flushes raises.
\<close>

definition BIGINT_MAX :: int where
  "BIGINT_MAX = 9223372036854775807"

definition BIGINT_MIN :: int where
  "BIGINT_MIN = - 9223372036854775808"

definition fits_bigint :: "int \<Rightarrow> bool" where
  "fits_bigint n \<longleftrightarrow> BIGINT_MIN \<le> n \<and> n \<le> BIGINT_MAX"

section \<open>Rebalancing (services/yield\_optimizer.py, rebalance\_portfolio)\<close>

text \<open>
  An allocation is the Python dict with the keys \<open>strategy_id\<close> and \<open>amount\<close>;
  amounts are Python integers (wei), so they are unbounded.
\<close>

record allocation =
  strategy_id :: int
  amount :: int

text \<open>
  The dict appended to \<open>rebalance_actions\<close>: strategy id, the action string
  (\<open>'deposit'\<close> or \<open>'withdraw'\<close>), amount, current amount, target amount.
\<close>

record rebalance_action =
  ra_strategy_id :: int
  ra_action :: string
  ra_amount :: int
  ra_current_amount :: int
  ra_target_amount :: int

text \<open>
  \<open>{a['strategy_id']: a for a in allocations}\<close>: the comprehension stores the
  entries from left to right, so a later entry replaces an earlier one of the same id.
\<close>

definition alloc_map :: "allocation list \<Rightarrow> (int \<rightharpoonup> allocation)" where
  "alloc_map allocs = fold (\<lambda>a m. m(strategy_id a \<mapsto> a)) allocs Map.empty"

text \<open>
  \<open>set(current_map.keys()) | set(target_map.keys())\<close>. Python leaves the iteration
  order of a set open; the model enumerates the ids in ascending order, and the
  theorems speak about the actions as a set.
\<close>

definition all_strategy_ids :: "allocation list \<Rightarrow> allocation list \<Rightarrow> int list" where
  "all_strategy_ids current_allocations target_allocations =
     sort (remdups (map strategy_id current_allocations @ map strategy_id target_allocations))"

text \<open>\<open>m.get(strategy_id, {'amount': 0})['amount']\<close>\<close>

definition get_amount :: "(int \<rightharpoonup> allocation) \<Rightarrow> int \<Rightarrow> int" where
  "get_amount m sid = (case m sid of None \<Rightarrow> 0 | Some a \<Rightarrow> amount a)"

text \<open>The literal of the source: 1000000000000000 wei, 0.001 ETH.\<close>

definition dust_threshold :: int where
  "dust_threshold = 1000000000000000"

text \<open>The body of the loop over \<open>all_strategy_ids\<close>: the actions it appends for one id.\<close>

definition rebalance_step ::
  "(int \<rightharpoonup> allocation) \<Rightarrow> (int \<rightharpoonup> allocation) \<Rightarrow> int \<Rightarrow> rebalance_action list" where
  "rebalance_step current_map target_map sid =
     (let current_amount = get_amount current_map sid;
          target_amount = get_amount target_map sid;
          difference = target_amount - current_amount
      in if \<bar>difference\<bar> > dust_threshold
         then [\<lparr>ra_strategy_id = sid,
                ra_action = (if difference > 0 then ''deposit'' else ''withdraw''),
                ra_amount = \<bar>difference\<bar>,
                ra_current_amount = current_amount,
                ra_target_amount = target_amount\<rparr>]
         else [])"

text \<open>\<open>user_id\<close> is a parameter the source never reads.\<close>

definition rebalance_portfolio ::
  "int \<Rightarrow> allocation list \<Rightarrow> allocation list \<Rightarrow> rebalance_action list" where
  "rebalance_portfolio user_id current_allocations target_allocations =
     (let current_map = alloc_map current_allocations;
          target_map = alloc_map target_allocations
      in concat (map (rebalance_step current_map target_map)
                   (all_strategy_ids current_allocations target_allocations)))"


text \<open>
  The amount a side holds for a strategy id, in the words of the specification: the
  amount of its entry, 0 when the side has no entry for the id. Where a list names an
  id twice, the entry that stands last is the one the lookup keeps.
\<close>

definition lookup_amount :: "allocation list \<Rightarrow> int \<Rightarrow> int" where
  "lookup_amount allocs sid =
     (case filter (\<lambda>a. strategy_id a = sid) allocs of
        [] \<Rightarrow> 0
      | x # xs \<Rightarrow> amount (last (x # xs)))"

text \<open>The action the specification describes for a non-dust difference.\<close>

definition action_for :: "int \<Rightarrow> int \<Rightarrow> int \<Rightarrow> rebalance_action" where
  "action_for sid current_amount target_amount =
     \<lparr>ra_strategy_id = sid,
      ra_action = (if target_amount - current_amount > 0 then ''deposit'' else ''withdraw''),
      ra_amount = \<bar>target_amount - current_amount\<bar>,
      ra_current_amount = current_amount,
      ra_target_amount = target_amount\<rparr>"

section \<open>Risk score (services/yield\_data\_service.py, \_calculate\_risk\_score)\<close>

text \<open>
  The body of the \<open>try\<close>: \<open>None\<close> when a comparison raises. The three
  adjustments are made in the order of the source, each an \<open>if/elif\<close> chain.
\<close>

definition risk_score_body :: "(string \<rightharpoonup> pyval) \<Rightarrow> real option" where
  "risk_score_body data =
     (let risk_score = 0.5;
          protocol = dict_get data ''protocol'' (PyStr []);
          risk_score =
            (if protocol \<in> set [PyStr ''compound'', PyStr ''aave''] then risk_score - 0.2
             else if protocol \<in> set [PyStr ''curve''] then risk_score - 0.1
             else if protocol \<in> set [PyStr ''uniswap_v3''] then risk_score + 0.1
             else risk_score)
      in case py_num (dict_get data ''tvl'' (PyInt 0)) of
           None \<Rightarrow> None
         | Some tvl \<Rightarrow>
             (let risk_score =
                    (if tvl > 1000000000000000000000000 then risk_score - 0.1
                     else if tvl < 10000000000000000000000 then risk_score + 0.1
                     else risk_score)
              in case py_num (dict_get data ''apy'' (PyInt 0)) of
                   None \<Rightarrow> None
                 | Some apy \<Rightarrow>
                     (let risk_score =
                            (if apy > 0.2 then risk_score + 0.2
                             else if apy < 0.05 then risk_score - 0.1
                             else risk_score)
                      in Some (max 0 (min 1 risk_score)))))"

text \<open>\<open>except Exception: return 0.5\<close>\<close>

definition calculate_risk_score :: "(string \<rightharpoonup> pyval) \<Rightarrow> real" where
  "calculate_risk_score data =
     (case risk_score_body data of None \<Rightarrow> 0.5 | Some r \<Rightarrow> r)"

text \<open>
  The reference definition of the specification: a baseline, three deltas, a clamp.
  The specification names no numbers for the two TVL thresholds; they are the
  literals of the source, 10^24 wei (1M ETH) and 10^22 wei (10K ETH).
\<close>

definition protocol_delta :: "string \<Rightarrow> real" where
  "protocol_delta p =
     (if p = ''compound'' \<or> p = ''aave'' then - 0.2
      else if p = ''curve'' then - 0.1
      else if p = ''uniswap_v3'' then 0.1
      else 0)"

definition tvl_delta :: "int \<Rightarrow> real" where
  "tvl_delta tvl = (if tvl > 10 ^ 24 then - 0.1 else if tvl < 10 ^ 22 then 0.1 else 0)"

definition apy_delta :: "real \<Rightarrow> real" where
  "apy_delta apy = (if apy > 0.2 then 0.2 else if apy < 0.05 then - 0.1 else 0)"

definition risk_reference :: "string \<Rightarrow> int \<Rightarrow> real \<Rightarrow> real" where
  "risk_reference protocol_type tvl apy =
     max 0 (min 1 (0.5 + protocol_delta protocol_type + tvl_delta tvl + apy_delta apy))"

section \<open>Floating-point arithmetic\<close>

text \<open>
  Python's \<open>float\<close> and numpy's \<open>float64\<close> are IEEE binary64. A basic operation
  on finite doubles returns the exact real result rounded to the nearest double, ties
  to even, and so does the conversion of a Python integer to a float. The optimiser is
  therefore modelled over a rounding operator \<open>fl\<close> applied after every operation:
  \<open>fl64\<close> is binary64 rounding, \<open>exact\<close> is arithmetic without rounding.

  \<open>fl64\<close> rounds to 53 significant bits, with the fixed spacing 2^-1074 below
  2^-1022. It has no value for an overflow: a result beyond the largest double
  (about 1.8 * 10^308) is an infinity in Python and a finite real here. With
  \<open>fl64\<close> the model therefore follows the source only while every intermediate
  value stays below that bound; the source's behaviour past it (a sum that overflows
  gives every strategy the weight 0.0, without an exception) is not modelled. Every
  theorem below that names \<open>fl64\<close> is an evaluation at an input whose values are
  far below the bound.
\<close>

definition exact :: "real \<Rightarrow> real" where
  "exact x = x"

definition pow2 :: "int \<Rightarrow> real" where
  "pow2 e = (if 0 \<le> e then 2 ^ nat e else 1 / 2 ^ nat (- e))"

text \<open>
  For \<open>x > 0\<close>, the search for the \<open>e\<close> with \<open>2^e \<le> x < 2^(e+1)\<close> by
  halving and doubling; 2200 steps reach the exponent of every double.
\<close>

fun exponent_search :: "nat \<Rightarrow> real \<Rightarrow> int \<Rightarrow> int" where
  "exponent_search 0 x e = e"
| "exponent_search (Suc n) x e =
     (if 2 \<le> x then exponent_search n (x / 2) (e + 1)
      else if x < 1 then exponent_search n (x * 2) (e - 1)
      else e)"

definition binary_exponent :: "real \<Rightarrow> int" where
  "binary_exponent x = exponent_search 2200 x 0"

definition round_half_even :: "real \<Rightarrow> int" where
  "round_half_even x =
     (let f = \<lfloor>x\<rfloor>; d = x - of_int f
      in if d < 1 / 2 then f else if 1 / 2 < d then f + 1
         else if even f then f else f + 1)"

definition fl64 :: "real \<Rightarrow> real" where
  "fl64 x =
     (if x = 0 then 0
      else let e = max (binary_exponent \<bar>x\<bar>) (- 1022); q = pow2 (e - 52)
           in of_int (round_half_even (x / q)) * q)"

text \<open>
  \<open>a / b\<close> on numpy floats: a zero divisor gives an infinity or a nan and a warning,
  no exception. \<open>None\<close> stands for a value that is not finite.
\<close>

definition np_div :: "(real \<Rightarrow> real) \<Rightarrow> real \<Rightarrow> real \<Rightarrow> real option" where
  "np_div fl a b = (if b = 0 then None else Some (fl (a / b)))"

text \<open>\<open>int(x)\<close> on a finite float: truncation towards zero.\<close>

definition py_int :: "real \<Rightarrow> int" where
  "py_int x = (if 0 \<le> x then \<lfloor>x\<rfloor> else \<lceil>x\<rceil>)"

text \<open>
  \<open>np.sum\<close>: the elements are added from the left, each sum rounded. (numpy adds
  arrays of eight and more elements in another order, which changes the rounding
  only.)
\<close>

definition np_sum :: "(real \<Rightarrow> real) \<Rightarrow> real list \<Rightarrow> real" where
  "np_sum fl xs = fold (\<lambda>x s. fl (s + x)) xs 0"

section \<open>Yield data aggregation (services/yield\_data\_service.py)\<close>

text \<open>
  The dict each adapter builds per pool: the keys \<open>protocol\<close>, \<open>symbol\<close>,
  \<open>apy\<close> (a float), \<open>tvl\<close> (an int), \<open>network\<close>, \<open>timestamp\<close> and, for
  two adapters, \<open>metadata\<close>. No adapter sets \<open>contract_address\<close>.
\<close>

record observation =
  o_protocol :: string
  o_symbol :: string
  o_apy :: real
  o_tvl :: int
  o_network :: string
  o_timestamp :: string
  o_metadata :: "(string \<times> pyval) list option"

text \<open>The observation as the dict \<open>_calculate_risk_score\<close> reads.\<close>

definition obs_dict :: "observation \<Rightarrow> (string \<rightharpoonup> pyval)" where
  "obs_dict data =
     [''protocol'' \<mapsto> PyStr (o_protocol data), ''symbol'' \<mapsto> PyStr (o_symbol data),
      ''apy'' \<mapsto> PyFloat (o_apy data), ''tvl'' \<mapsto> PyInt (o_tvl data),
      ''network'' \<mapsto> PyStr (o_network data), ''timestamp'' \<mapsto> PyStr (o_timestamp data)]"

text \<open>
  A Python dict from source keys to observations, in insertion order: assigning to a
  key that is present keeps its place and replaces its value, a new key goes last.
\<close>

type_synonym yields = "(string \<times> observation) list"

fun dict_set :: "'k \<Rightarrow> 'v \<Rightarrow> ('k \<times> 'v) list \<Rightarrow> ('k \<times> 'v) list" where
  "dict_set k v [] = [(k, v)]"
| "dict_set k v ((k', v') # ps) =
     (if k' = k then (k, v) # ps else (k', v') # dict_set k v ps)"

text \<open>\<open>d.update(other)\<close>\<close>

definition dict_update :: "('k \<times> 'v) list \<Rightarrow> ('k \<times> 'v) list \<Rightarrow> ('k \<times> 'v) list" where
  "dict_update d other = fold (\<lambda>(k, v) acc. dict_set k v acc) other d"

text \<open>
  What one adapter meets inside its \<open>try\<close>: the request raises (network error,
  timeout), or a response arrives with a status code; for status 200 the second
  component is what reading and walking the payload gives, an exception for a
  malformed payload or the dict of observations built from it.
\<close>

datatype http_outcome =
    RequestRaises py_exn
  | Response nat "py_exn + yields"

text \<open>
  The five adapters share one shape: status 200 returns the dict built, another status
  logs a warning and returns \<open>{}\<close>, and \<open>except Exception\<close> logs and returns \<open>{}\<close>.
\<close>

definition fetch_source :: "http_outcome \<Rightarrow> yields" where
  "fetch_source h =
     (case h of
        RequestRaises e \<Rightarrow> []
      | Response status body \<Rightarrow>
          (if status = 200 then (case body of Inl e \<Rightarrow> [] | Inr ys \<Rightarrow> ys) else []))"

definition fetch_compound_yields :: "http_outcome \<Rightarrow> yields" where
  "fetch_compound_yields = fetch_source"

definition fetch_uniswap_v3_yields :: "http_outcome \<Rightarrow> yields" where
  "fetch_uniswap_v3_yields = fetch_source"

definition fetch_staking_yields :: "http_outcome \<Rightarrow> yields" where
  "fetch_staking_yields = fetch_source"

definition fetch_aave_yields :: "http_outcome \<Rightarrow> yields" where
  "fetch_aave_yields = fetch_source"

definition fetch_curve_yields :: "http_outcome \<Rightarrow> yields" where
  "fetch_curve_yields = fetch_source"

text \<open>
  The loop over the results of \<open>asyncio.gather(*tasks, return_exceptions=True)\<close>: a
  dict is merged with \<open>update\<close>, an exception is logged and skipped.
\<close>

definition process_results :: "(py_exn + yields) list \<Rightarrow> yields" where
  "process_results results =
     fold (\<lambda>r all_yields. case r of Inr d \<Rightarrow> dict_update all_yields d | Inl e \<Rightarrow> all_yields)
       results []"

text \<open>
  \<open>_cache_yield_data\<close>: without a client it returns at once; \<open>setex\<close> stores the
  entry or raises, and the \<open>except\<close> only logs.
\<close>

datatype redis_outcome = NoClient | SetexOk | SetexRaises py_exn

definition cache_yield_data :: "redis_outcome \<Rightarrow> yields option \<Rightarrow> yields \<Rightarrow> yields option" where
  "cache_yield_data r cached ys =
     (case r of NoClient \<Rightarrow> cached | SetexOk \<Rightarrow> Some ys | SetexRaises e \<Rightarrow> cached)"

text \<open>
  The query of \<open>_update_database_yields\<close>: the first strategy with the given contract
  address and network.
\<close>

definition find_strategy :: "database \<Rightarrow> string \<Rightarrow> string \<Rightarrow> strategy option" where
  "find_strategy d addr net =
     find (\<lambda>s. s_contract_address s = addr \<and> s_network s = net) (strategies d)"

text \<open>The primary key a flushed new row gets.\<close>

definition next_strategy_id :: "database \<Rightarrow> int" where
  "next_strategy_id d = fold max (map s_id (strategies d)) 0 + 1"

text \<open>
  One turn of the loop, on the session's pending state. The address read is
  \<open>data.get('contract_address', '')\<close>, always the empty string. A new strategy is
  added and flushed, which the unique index on \<open>contract_address\<close> refuses when
  another row holds the same address; then the strategy's apy and tvl are set and a
  yield row is added. A tvl outside the 64-bit range of the \<open>tvl\<close> columns is
  refused when its rows are flushed (at once for a new strategy, at the next query or
  at the commit otherwise), in every case inside the same \<open>try\<close>; the model
  raises it in the turn that writes the rows.
\<close>

definition write_entry :: "int \<Rightarrow> database \<Rightarrow> string \<times> observation \<Rightarrow> py_exn + database" where
  "write_entry now d entry =
     (let data = snd entry;
          row = \<lparr>y_strategy_id = 0, y_apy = o_apy data, y_tvl = o_tvl data,
                 y_network = o_network data, y_timestamp = now\<rparr>
      in case find_strategy d [] (o_network data) of
           None \<Rightarrow>
             (if \<not> fits_bigint (o_tvl data) then Inl (OverflowError ''tvl'')
              else if list_ex (\<lambda>s. s_contract_address s = []) (strategies d)
              then Inl (IntegrityError ''strategies.contract_address'')
              else
                (let new = \<lparr>s_id = next_strategy_id d, s_name = o_symbol data,
                             s_type = o_protocol data, s_contract_address = [],
                             s_network = o_network data, s_is_active = True,
                             s_apy = o_apy data, s_tvl = o_tvl data,
                             s_risk_score = calculate_risk_score (obs_dict data)\<rparr>
                 in Inr (d\<lparr>strategies := strategies d @ [new],
                            yield_data := yield_data d @ [row\<lparr>y_strategy_id := s_id new\<rparr>]\<rparr>)))
         | Some found \<Rightarrow>
             (if \<not> fits_bigint (o_tvl data) then Inl (OverflowError ''tvl'')
              else
                Inr (d\<lparr>strategies :=
                           map (\<lambda>s. if s_id s = s_id found
                                     then s\<lparr>s_apy := o_apy data, s_tvl := o_tvl data\<rparr> else s)
                             (strategies d),
                         yield_data := yield_data d @ [row\<lparr>y_strategy_id := s_id found\<rparr>]\<rparr>)))"

text \<open>
  The body of the \<open>try\<close> of \<open>_update_database_yields\<close>: the loop over the items and
  the commit. \<open>fault = Some k\<close> says that the database is unavailable at step \<open>k\<close>,
  the steps being the entries in order and then the commit.
\<close>

fun write_entries :: "int \<Rightarrow> nat option \<Rightarrow> database \<Rightarrow> yields \<Rightarrow> py_exn + database" where
  "write_entries now fault d [] =
     (if fault = Some 0 then Inl (OperationalError ''commit'') else Inr d)"
| "write_entries now fault d (entry # rest) =
     (if fault = Some 0 then Inl (OperationalError ''query'')
      else case write_entry now d entry of
             Inl e \<Rightarrow> Inl e
           | Inr d' \<Rightarrow> write_entries now (map_option (\<lambda>k. k - 1) fault) d' rest)"

text \<open>
  \<open>_update_database_yields\<close>: on an exception the handler logs it and rolls the
  session back, which leaves the database as it was; nothing is raised again.
\<close>

definition update_database_yields :: "int \<Rightarrow> nat option \<Rightarrow> database \<Rightarrow> yields \<Rightarrow> database" where
  "update_database_yields now fault d ys =
     (case write_entries now fault d ys of Inl e \<Rightarrow> d | Inr d' \<Rightarrow> d')"

text \<open>What a run of \<open>fetch_all_yield_data\<close> meets outside the program.\<close>

record fetch_env =
  compound_http :: http_outcome
  uniswap_v3_http :: http_outcome
  staking_http :: http_outcome
  aave_http :: http_outcome
  curve_http :: http_outcome
  redis :: redis_outcome
  db_fault :: "nat option"
  clock :: int

record service_state =
  db :: database
  cache :: "yields option"

text \<open>
  \<open>fetch_all_yield_data\<close>. The adapters catch their own exceptions, so every gathered
  result is a dict; the cache and the database step catch theirs; the outer
  \<open>except Exception: return {}\<close> has nothing left to catch. The result is the value
  returned, or the exception that leaves the function, and the state after the call.
\<close>

definition fetch_all_yield_data :: "fetch_env \<Rightarrow> service_state \<Rightarrow> (py_exn + yields) \<times> service_state" where
  "fetch_all_yield_data env st =
     (let results = [Inr (fetch_compound_yields (compound_http env)),
                     Inr (fetch_uniswap_v3_yields (uniswap_v3_http env)),
                     Inr (fetch_staking_yields (staking_http env)),
                     Inr (fetch_aave_yields (aave_http env)),
                     Inr (fetch_curve_yields (curve_http env))];
          all_yields = process_results results;
          cache' = cache_yield_data (redis env) (cache st) all_yields;
          db' = update_database_yields (clock env) (db_fault env) (db st) all_yields
      in (Inr all_yields, \<lparr>db = db', cache = cache'\<rparr>))"

text \<open>
  In the words of the specification: a source succeeds when it answers 200 with a
  well-formed payload, and the result merges the data of the sources that succeed.
\<close>

definition source_data :: "http_outcome \<Rightarrow> yields option" where
  "source_data h =
     (case h of
        Response status (Inr ys) \<Rightarrow> (if status = 200 then Some ys else None)
      | _ \<Rightarrow> None)"

definition merge_all :: "yields list \<Rightarrow> yields" where
  "merge_all ds = fold (\<lambda>d acc. dict_update acc d) ds []"

definition sources_of :: "fetch_env \<Rightarrow> http_outcome list" where
  "sources_of env =
     [compound_http env, uniswap_v3_http env, staking_http env, aave_http env, curve_http env]"

section \<open>Yield prediction (services/yield\_optimizer.py)\<close>

text \<open>
  The optimiser's own state: \<open>is_trained\<close> and the fitted scaler and forest, which
  are one function from a feature vector to a prediction, \<open>None\<close> where
  \<open>predict\<close> raises.
\<close>

record predictor =
  is_trained :: bool
  forest :: "real list \<Rightarrow> real option"

text \<open>
  What the optimiser meets outside the program: what fitting the scaler and the random
  forest on given rows returns (\<open>None\<close> where it raises), and the clock.
\<close>

record ml_env =
  fit :: "yield_row list \<Rightarrow> (real list \<Rightarrow> real option) option"
  utc_now :: int
  utc_hour :: nat
  utc_weekday :: nat

record optimizer_state =
  o_db :: database
  o_predictor :: predictor

text \<open>
  \<open>train_model\<close>: the rows of the last 30 days (in seconds); fewer than 100 rows, or
  an exception while fitting, return False and leave \<open>is_trained\<close> as it was.
\<close>

definition train_model :: "ml_env \<Rightarrow> database \<Rightarrow> predictor \<Rightarrow> bool \<times> predictor" where
  "train_model env d p =
     (let rows = filter (\<lambda>y. y_timestamp y \<ge> utc_now env - 2592000) (yield_data d)
      in if length rows < 100 then (False, p)
         else case fit env rows of
                None \<Rightarrow> (False, p)
              | Some m \<Rightarrow> (True, \<lparr>is_trained = True, forest = m\<rparr>))"

definition get_network_encoding :: "string \<Rightarrow> real" where
  "get_network_encoding network =
     (if network = ''ethereum'' then 1 else if network = ''polygon'' then 2
      else if network = ''bsc'' then 3 else if network = ''testnet'' then 4 else 0)"

text \<open>
  \<open>predict_yield\<close> returns the prediction and the predictor, which a first call may
  have trained. The query is by id over all strategies, active or not.
\<close>

definition predict_yield ::
  "(real \<Rightarrow> real) \<Rightarrow> ml_env \<Rightarrow> database \<Rightarrow> predictor \<Rightarrow> int \<Rightarrow> int \<Rightarrow> string \<Rightarrow> real \<times> predictor" where
  "predict_yield fl env d p sid total_amount network =
     (let p = (if \<not> is_trained p then snd (train_model env d p) else p);
          found = find (\<lambda>s. s_id s = sid) (strategies d)
      in if \<not> is_trained p
         then ((case found of None \<Rightarrow> 0 | Some s \<Rightarrow> s_apy s), p)
         else
           ((case found of
               None \<Rightarrow> 0
             | Some s \<Rightarrow>
                 (case forest p
                         [s_apy s, fl (fl (of_int total_amount) / 1000000000000000000),
                          of_nat (utc_hour env), of_nat (utc_weekday env),
                          get_network_encoding network, 0, 0] of
                    None \<Rightarrow> 0
                  | Some prediction \<Rightarrow> max 0 prediction)), p))"


section \<open>Allocation (services/yield\_optimizer.py)\<close>

text \<open>One requested strategy: the dict with \<open>strategy_id\<close> and, possibly, \<open>weight\<close>.\<close>

record strategy_weight =
  sw_strategy_id :: int
  sw_weight :: "real option"

text \<open>One entry of \<open>strategy_data\<close>; its weight is \<open>strategy.get('weight', 0.0)\<close>.\<close>

record candidate =
  c_strategy_id :: int
  c_name :: string
  c_type :: string
  c_contract_address :: string
  c_network :: string
  c_expected_yield :: real
  c_risk_score :: real
  c_tvl :: int
  c_weight :: real

text \<open>
  The loop of \<open>_calculate_optimal_allocations\<close> over the requested strategies: one
  that matches no row of \<open>db_strategies\<close> is skipped; the predictor is threaded
  through the calls.
\<close>

fun build_strategy_data ::
  "(real \<Rightarrow> real) \<Rightarrow> ml_env \<Rightarrow> database \<Rightarrow> strategy list \<Rightarrow> int \<Rightarrow> predictor \<Rightarrow>
     strategy_weight list \<Rightarrow> candidate list \<times> predictor" where
  "build_strategy_data fl env d db_strategies total_amount p [] = ([], p)"
| "build_strategy_data fl env d db_strategies total_amount p (sw # rest) =
     (case find (\<lambda>s. s_id s = sw_strategy_id sw) db_strategies of
        None \<Rightarrow> build_strategy_data fl env d db_strategies total_amount p rest
      | Some s \<Rightarrow>
          (let (predicted_yield, p') =
                 predict_yield fl env d p (sw_strategy_id sw) total_amount (s_network s);
               c = \<lparr>c_strategy_id = sw_strategy_id sw, c_name = s_name s, c_type = s_type s,
                    c_contract_address = s_contract_address s, c_network = s_network s,
                    c_expected_yield = predicted_yield, c_risk_score = s_risk_score s,
                    c_tvl = s_tvl s,
                    c_weight = (case sw_weight sw of None \<Rightarrow> 0 | Some w \<Rightarrow> w)\<rparr>;
               (cs, p'') = build_strategy_data fl env d db_strategies total_amount p' rest
           in (c # cs, p'')))"

text \<open>
  The \<open>try\<close> of \<open>_modern_portfolio_theory\<close>. The covariance matrix is computed and
  never read. A value that is not finite (a division by zero) makes the weight of its
  strategy a nan, on which \<open>int\<close> raises inside the loop: the body then has no
  result (\<open>None\<close>). On an empty list nothing is divided and the result is empty.
\<close>

definition sharpe_ratio :: "(real \<Rightarrow> real) \<Rightarrow> candidate \<Rightarrow> real option" where
  "sharpe_ratio fl c =
     np_div fl (c_expected_yield c) (fl (c_risk_score c + fl (1 / 1000000)))"

definition adjusted_ratio :: "(real \<Rightarrow> real) \<Rightarrow> real \<Rightarrow> candidate \<Rightarrow> real option" where
  "adjusted_ratio fl risk_tolerance c =
     (case sharpe_ratio fl c of
        None \<Rightarrow> None
      | Some sharpe \<Rightarrow>
          Some (fl (fl (sharpe * fl (1 - risk_tolerance))
                    + fl (c_expected_yield c * risk_tolerance))))"

definition mpt_weights :: "(real \<Rightarrow> real) \<Rightarrow> real \<Rightarrow> candidate list \<Rightarrow> real list option" where
  "mpt_weights fl risk_tolerance strategy_data =
     (case those (map (adjusted_ratio fl risk_tolerance) strategy_data) of
        None \<Rightarrow> None
      | Some adjusted_ratios \<Rightarrow>
          those (map (\<lambda>a. np_div fl a (np_sum fl adjusted_ratios)) adjusted_ratios))"

definition make_allocation :: "(real \<Rightarrow> real) \<Rightarrow> int \<Rightarrow> candidate \<Rightarrow> real \<Rightarrow> opt_allocation" where
  "make_allocation fl total_amount c w =
     \<lparr>oa_strategy_id = c_strategy_id c, oa_name = c_name c, oa_type = c_type c,
      oa_contract_address = c_contract_address c, oa_network = c_network c,
      oa_amount = py_int (fl (fl (of_int total_amount) * w)), oa_weight = w,
      oa_expected_yield = c_expected_yield c, oa_risk_score = c_risk_score c\<rparr>"

definition mpt_try :: "(real \<Rightarrow> real) \<Rightarrow> candidate list \<Rightarrow> int \<Rightarrow> real \<Rightarrow> opt_allocation list option" where
  "mpt_try fl strategy_data total_amount risk_tolerance =
     (case mpt_weights fl risk_tolerance strategy_data of
        None \<Rightarrow> None
      | Some weights \<Rightarrow> Some (map2 (make_allocation fl total_amount) strategy_data weights))"

text \<open>The \<open>except\<close>: equal weights, \<open>1.0 / len(strategy_data)\<close>.\<close>

definition mpt_fallback :: "(real \<Rightarrow> real) \<Rightarrow> candidate list \<Rightarrow> int \<Rightarrow> opt_allocation list" where
  "mpt_fallback fl strategy_data total_amount =
     (let equal_weight = fl (1 / of_nat (length strategy_data))
      in map (\<lambda>s. make_allocation fl total_amount s equal_weight) strategy_data)"

definition modern_portfolio_theory ::
  "(real \<Rightarrow> real) \<Rightarrow> candidate list \<Rightarrow> int \<Rightarrow> real \<Rightarrow> py_exn + opt_allocation list" where
  "modern_portfolio_theory fl strategy_data total_amount risk_tolerance =
     (case mpt_try fl strategy_data total_amount risk_tolerance of
        Some allocations \<Rightarrow> Inr allocations
      | None \<Rightarrow>
          (if length strategy_data = 0 then Inl (ZeroDivisionError ''float division by zero'')
           else Inr (mpt_fallback fl strategy_data total_amount)))"

definition calculate_optimal_allocations ::
  "(real \<Rightarrow> real) \<Rightarrow> ml_env \<Rightarrow> database \<Rightarrow> predictor \<Rightarrow> int \<Rightarrow> strategy_weight list \<Rightarrow>
     strategy list \<Rightarrow> real \<Rightarrow> (py_exn + opt_allocation list) \<times> predictor" where
  "calculate_optimal_allocations fl env d p total_amount requested db_strategies risk_tolerance =
     (let (strategy_data, p') = build_strategy_data fl env d db_strategies total_amount p requested
      in if strategy_data = [] then (Inl (ValueError ''No valid strategies found''), p')
         else (modern_portfolio_theory fl strategy_data total_amount risk_tolerance, p'))"

text \<open>
  \<open>_calculate_expected_apy\<close> and the optimiser's \<open>_calculate_risk_score\<close>: the sums
  run over the allocations whose strategy is among \<open>db_strategies\<close>.
\<close>

definition calculate_expected_apy ::
  "(real \<Rightarrow> real) \<Rightarrow> opt_allocation list \<Rightarrow> strategy list \<Rightarrow> real" where
  "calculate_expected_apy fl allocations db_strategies =
     (let (total_weighted_yield, total_weight) =
            fold (\<lambda>a (y, w).
                    case find (\<lambda>s. s_id s = oa_strategy_id a) db_strategies of
                      None \<Rightarrow> (y, w)
                    | Some s \<Rightarrow> (fl (y + fl (oa_weight a * oa_expected_yield a)),
                                 fl (w + oa_weight a)))
              allocations (0, 0)
      in if total_weight > 0 then fl (total_weighted_yield / total_weight) else 0)"

definition optimizer_calculate_risk_score ::
  "(real \<Rightarrow> real) \<Rightarrow> opt_allocation list \<Rightarrow> strategy list \<Rightarrow> real" where
  "optimizer_calculate_risk_score fl allocations db_strategies =
     (let (total_weighted_risk, total_weight) =
            fold (\<lambda>a (r, w).
                    case find (\<lambda>s. s_id s = oa_strategy_id a) db_strategies of
                      None \<Rightarrow> (r, w)
                    | Some s \<Rightarrow> (fl (r + fl (oa_weight a * s_risk_score s)),
                                 fl (w + oa_weight a)))
              allocations (0, 0)
      in if total_weight > 0 then fl (total_weighted_risk / total_weight) else 0)"

text \<open>The defaults of config.py, in wei: 1 ETH and 1000 ETH.\<close>

definition MIN_AMOUNT_THRESHOLD :: int where
  "MIN_AMOUNT_THRESHOLD = 1000000000000000000"

definition MAX_AMOUNT_THRESHOLD :: int where
  "MAX_AMOUNT_THRESHOLD = 1000000000000000000000"

record optimize_result =
  res_optimal_allocations :: "opt_allocation list"
  res_expected_apy :: real
  res_risk_score :: real
  res_total_amount :: int
  res_created_at :: int

text \<open>
  \<open>optimize_allocations\<close>: the result is the dict returned or the exception raised,
  and the state after the call. The row is added and committed last.
  \<open>total_amount\<close> is a \<open>BigInteger\<close> column: for an amount beyond 2^63 - 1
  the commit raises, the exception leaves the function through \<open>except: raise\<close>
  and no row is stored. (The amounts inside \<open>optimal_allocations\<close> are JSON and
  unbounded.) Apart from that the database is taken to be available.
\<close>

definition optimize_allocations ::
  "(real \<Rightarrow> real) \<Rightarrow> ml_env \<Rightarrow> optimizer_state \<Rightarrow> int \<Rightarrow> strategy_weight list \<Rightarrow> real \<Rightarrow> real \<Rightarrow>
     (py_exn + optimize_result) \<times> optimizer_state" where
  "optimize_allocations fl env st total_amount requested risk_tolerance max_slippage =
     (if total_amount < MIN_AMOUNT_THRESHOLD
      then (Inl (ValueError ''Amount below minimum threshold''), st)
      else if total_amount > MAX_AMOUNT_THRESHOLD
      then (Inl (ValueError ''Amount above maximum threshold''), st)
      else
        (let strategy_ids = map sw_strategy_id requested;
             db_strategies =
               filter (\<lambda>s. s_id s \<in> set strategy_ids \<and> s_is_active s) (strategies (o_db st))
         in if db_strategies = []
            then (Inl (ValueError ''No active strategies found''), st)
            else
              (case calculate_optimal_allocations fl env (o_db st) (o_predictor st) total_amount
                      requested db_strategies risk_tolerance of
                 (Inl e, p') \<Rightarrow> (Inl e, st\<lparr>o_predictor := p'\<rparr>)
               | (Inr optimal_allocations, p') \<Rightarrow>
                   (let expected_apy =
                          calculate_expected_apy fl optimal_allocations db_strategies;
                        risk_score =
                          optimizer_calculate_risk_score fl optimal_allocations db_strategies;
                        row = \<lparr>or_user_id = 1, or_total_amount = total_amount,
                                or_optimal_allocations = optimal_allocations,
                                or_expected_apy = expected_apy, or_risk_score = risk_score,
                                or_risk_tolerance = risk_tolerance,
                                or_max_slippage = max_slippage,
                                or_strategy_count = length requested\<rparr>
                    in if \<not> fits_bigint total_amount
                       then (Inl (OverflowError ''total_amount''), st\<lparr>o_predictor := p'\<rparr>)
                       else
                         (Inr \<lparr>res_optimal_allocations = optimal_allocations,
                                res_expected_apy = expected_apy, res_risk_score = risk_score,
                                res_total_amount = total_amount,
                                res_created_at = utc_now env\<rparr>,
                          \<lparr>o_db = (o_db st)\<lparr>optimization_results :=
                                      optimization_results (o_db st) @ [row]\<rparr>,
                            o_predictor = p'\<rparr>)))))"

text \<open>
  The blended score of the specification: the pseudo-Sharpe ratio
  \<open>yield / (risk + 1e-6)\<close> weighted by \<open>1 - risk_tolerance\<close>, plus the yield weighted by
  \<open>risk_tolerance\<close>, in exact arithmetic.
\<close>

definition blended_score :: "real \<Rightarrow> candidate \<Rightarrow> real" where
  "blended_score risk_tolerance c =
     c_expected_yield c / (c_risk_score c + 1 / 1000000) * (1 - risk_tolerance)
       + c_expected_yield c * risk_tolerance"

section \<open>The optimise endpoint (routers/yield\_routes.py, optimize\_yield)\<close>

text \<open>The request body: \<open>StrategyWeight\<close> and \<open>OptimizeRequest\<close>.\<close>

record weight_item =
  wi_strategy_id :: int
  wi_weight :: real

record optimize_request =
  req_total_amount :: int
  req_strategies :: "weight_item list"
  req_risk_tolerance :: real
  req_max_slippage :: real

text \<open>
  The parameters \<open>optimize_allocations\<close> declares besides \<open>self\<close>. A call that
  passes a keyword the function does not declare raises TypeError before the body
  runs.
\<close>

definition optimize_allocations_parameters :: "string list" where
  "optimize_allocations_parameters =
     [''total_amount'', ''strategies'', ''risk_tolerance'', ''max_slippage'']"

definition call_optimize_allocations ::
  "string list \<Rightarrow> (real \<Rightarrow> real) \<Rightarrow> ml_env \<Rightarrow> optimizer_state \<Rightarrow> int \<Rightarrow> strategy_weight list \<Rightarrow>
     real \<Rightarrow> real \<Rightarrow> (py_exn + optimize_result) \<times> optimizer_state" where
  "call_optimize_allocations keywords fl env st total_amount requested risk_tolerance max_slippage =
     (if list_all (\<lambda>k. k \<in> set optimize_allocations_parameters) keywords
      then optimize_allocations fl env st total_amount requested risk_tolerance max_slippage
      else (Inl (TypeError ''optimize_allocations() got an unexpected keyword argument''), st))"

text \<open>
  The body of the handler's \<open>try\<close>: the two checks raise \<open>HTTPException(400)\<close>
  inside the \<open>try\<close>; the call passes \<open>user_id\<close> with the four declared keywords.
  \<open>sum\<close> adds the weights from the left.
\<close>

definition optimize_yield_body ::
  "(real \<Rightarrow> real) \<Rightarrow> ml_env \<Rightarrow> optimizer_state \<Rightarrow> optimize_request \<Rightarrow>
     (py_exn + optimize_result) \<times> optimizer_state" where
  "optimize_yield_body fl env st request =
     (if length (req_strategies request) = 0
      then (Inl (HTTPException 400 ''At least one strategy required''), st)
      else if np_sum fl (map wi_weight (req_strategies request)) > 1
      then (Inl (HTTPException 400 ''Total weight cannot exceed 1.0''), st)
      else call_optimize_allocations
             [''user_id'', ''total_amount'', ''strategies'', ''risk_tolerance'', ''max_slippage'']
             fl env st (req_total_amount request)
             (map (\<lambda>s. \<lparr>sw_strategy_id = wi_strategy_id s, sw_weight = Some (wi_weight s)\<rparr>)
                (req_strategies request))
             (req_risk_tolerance request) (req_max_slippage request))"

text \<open>
  The handlers, in the order of the source: \<open>except ValueError\<close> answers 400 with the
  message, \<open>except Exception\<close> answers 500. \<open>HTTPException\<close> is an \<open>Exception\<close>
  and not a \<open>ValueError\<close>.
\<close>

definition optimize_yield ::
  "(real \<Rightarrow> real) \<Rightarrow> ml_env \<Rightarrow> optimizer_state \<Rightarrow> optimize_request \<Rightarrow>
     (py_exn + optimize_result) \<times> optimizer_state" where
  "optimize_yield fl env st request =
     (case optimize_yield_body fl env st request of
        (Inr result, st') \<Rightarrow> (Inr result, st')
      | (Inl (ValueError msg), st') \<Rightarrow> (Inl (HTTPException 400 msg), st')
      | (Inl e, st') \<Rightarrow> (Inl (HTTPException 500 ''Internal server error''), st'))"

section \<open>Rebalancing: an empty portfolio and one target\<close>

lemma alloc_map_Nil: "alloc_map [] = Map.empty"
  by (simp add: alloc_map_def)

lemma alloc_map_single: "alloc_map [a] = [strategy_id a \<mapsto> a]"
  by (simp add: alloc_map_def)

lemma rebalance_empty_single:
  "rebalance_portfolio uid [] [\<lparr>strategy_id = sid, amount = a\<rparr>] =
     rebalance_step Map.empty [sid \<mapsto> \<lparr>strategy_id = sid, amount = a\<rparr>] sid"
  by (simp add: rebalance_portfolio_def all_strategy_ids_def alloc_map_Nil alloc_map_single)

text \<open>
  C8, as stated, at strategy 1 and amount 100: the difference 100 is not above the dust
  threshold of 10^15, so the source emits no action at all.
\<close>

theorem rebalance_empty_to_100_no_action:
  "rebalance_portfolio 1 [] [\<lparr>strategy_id = 1, amount = 100\<rparr>] = []"
  by (simp add: rebalance_empty_single rebalance_step_def get_amount_def dust_threshold_def)

text \<open>
  C8, amended: from an empty current allocation, a single target of an amount above the
  dust threshold yields exactly one action, a deposit of that amount for that strategy;
  a target amount at or below the threshold (such as 100) yields none.
\<close>

theorem rebalance_empty_to_single:
  "rebalance_portfolio uid [] [\<lparr>strategy_id = sid, amount = a\<rparr>] =
     (if a > dust_threshold
      then [\<lparr>ra_strategy_id = sid, ra_action = ''deposit'', ra_amount = a,
              ra_current_amount = 0, ra_target_amount = a\<rparr>]
      else if a < - dust_threshold
      then [\<lparr>ra_strategy_id = sid, ra_action = ''withdraw'', ra_amount = - a,
              ra_current_amount = 0, ra_target_amount = a\<rparr>]
      else [])"
  by (auto simp add: rebalance_empty_single rebalance_step_def get_amount_def
        dust_threshold_def Let_def)

theorem rebalance_empty_to_single_witness:
  "rebalance_portfolio 7 [] [\<lparr>strategy_id = 1, amount = 100000000000000000000\<rparr>] =
     [\<lparr>ra_strategy_id = 1, ra_action = ''deposit'', ra_amount = 100000000000000000000,
       ra_current_amount = 0, ra_target_amount = 100000000000000000000\<rparr>]"
  using rebalance_empty_to_single [of 7 1 100000000000000000000]
  by (simp add: dust_threshold_def)


section \<open>Rebalancing: the actions as a function of the two sides\<close>

lemma alloc_map_snoc: "alloc_map (xs @ [a]) = (alloc_map xs)(strategy_id a \<mapsto> a)"
  by (simp add: alloc_map_def)

lemma lookup_amount_snoc:
  "lookup_amount (xs @ [a]) sid =
     (if strategy_id a = sid then amount a else lookup_amount xs sid)"
  by (cases "filter (\<lambda>a. strategy_id a = sid) xs") (simp_all add: lookup_amount_def)

lemma get_amount_alloc_map: "get_amount (alloc_map xs) sid = lookup_amount xs sid"
proof (induction xs rule: rev_induct)
  case Nil
  show ?case by (simp add: alloc_map_Nil get_amount_def lookup_amount_def)
next
  case (snoc a xs)
  then show ?case
    by (simp add: alloc_map_snoc lookup_amount_snoc get_amount_def)
qed

lemma set_all_strategy_ids:
  "set (all_strategy_ids cur tgt) = strategy_id ` set cur \<union> strategy_id ` set tgt"
  by (simp add: all_strategy_ids_def)

lemma distinct_all_strategy_ids: "distinct (all_strategy_ids cur tgt)"
  by (simp add: all_strategy_ids_def)

lemma rebalance_step_lookup:
  "rebalance_step (alloc_map cur) (alloc_map tgt) sid =
     (if \<bar>lookup_amount tgt sid - lookup_amount cur sid\<bar> > dust_threshold
      then [action_for sid (lookup_amount cur sid) (lookup_amount tgt sid)]
      else [])"
  by (simp add: rebalance_step_def get_amount_alloc_map action_for_def Let_def)

lemma ids_of_steps:
  "map ra_strategy_id (concat (map (rebalance_step (alloc_map cur) (alloc_map tgt)) ids)) =
     filter (\<lambda>sid. \<bar>lookup_amount tgt sid - lookup_amount cur sid\<bar> > dust_threshold) ids"
  by (induction ids) (simp_all add: rebalance_step_lookup action_for_def)

lemma set_rebalance_portfolio:
  "set (rebalance_portfolio uid cur tgt) =
     (\<lambda>sid. action_for sid (lookup_amount cur sid) (lookup_amount tgt sid)) `
       {sid \<in> strategy_id ` set cur \<union> strategy_id ` set tgt.
          \<bar>lookup_amount tgt sid - lookup_amount cur sid\<bar> > dust_threshold}"
  unfolding rebalance_portfolio_def Let_def set_concat set_map image_image
    rebalance_step_lookup set_all_strategy_ids
  by (auto split: if_splits)

lemma rebalance_ids_distinct:
  "distinct (map ra_strategy_id (rebalance_portfolio uid cur tgt))"
  unfolding rebalance_portfolio_def Let_def ids_of_steps
  by (simp add: distinct_all_strategy_ids)

lemma rebalance_same: "rebalance_portfolio uid X X = []"
proof -
  have "set (rebalance_portfolio uid X X) = {}"
    unfolding set_rebalance_portfolio by (simp add: dust_threshold_def)
  then show ?thesis by simp
qed

text \<open>
  C7: the actions are exactly those of the ids of either side whose difference
  (target minus current, a missing entry counting 0) is above the dust threshold in
  absolute value, one action per such id, a deposit of the difference when it is
  positive and a withdrawal of its absolute value when it is negative; so
  \<open>rebalance(X, X)\<close> has no action, and an id whose difference is at or below the
  threshold has none.
\<close>

theorem rebalance_portfolio_actions:
  "(act \<in> set (rebalance_portfolio uid cur tgt) \<longleftrightarrow>
      (\<exists>sid \<in> strategy_id ` set cur \<union> strategy_id ` set tgt.
         \<bar>lookup_amount tgt sid - lookup_amount cur sid\<bar> > dust_threshold \<and>
         act = \<lparr>ra_strategy_id = sid,
                 ra_action = (if lookup_amount tgt sid - lookup_amount cur sid > 0
                              then ''deposit'' else ''withdraw''),
                 ra_amount = \<bar>lookup_amount tgt sid - lookup_amount cur sid\<bar>,
                 ra_current_amount = lookup_amount cur sid,
                 ra_target_amount = lookup_amount tgt sid\<rparr>))
   \<and> (act \<in> set (rebalance_portfolio uid cur tgt) \<and> ra_action act = ''withdraw'' \<longrightarrow>
        ra_target_amount act - ra_current_amount act < 0)
   \<and> distinct (map ra_strategy_id (rebalance_portfolio uid cur tgt))
   \<and> rebalance_portfolio uid X X = []
   \<and> (\<bar>lookup_amount tgt sid' - lookup_amount cur sid'\<bar> \<le> dust_threshold \<longrightarrow>
        sid' \<notin> ra_strategy_id ` set (rebalance_portfolio uid cur tgt))"
proof (intro conjI)
  show "act \<in> set (rebalance_portfolio uid cur tgt) \<longleftrightarrow>
      (\<exists>sid \<in> strategy_id ` set cur \<union> strategy_id ` set tgt.
         \<bar>lookup_amount tgt sid - lookup_amount cur sid\<bar> > dust_threshold \<and>
         act = \<lparr>ra_strategy_id = sid,
                 ra_action = (if lookup_amount tgt sid - lookup_amount cur sid > 0
                              then ''deposit'' else ''withdraw''),
                 ra_amount = \<bar>lookup_amount tgt sid - lookup_amount cur sid\<bar>,
                 ra_current_amount = lookup_amount cur sid,
                 ra_target_amount = lookup_amount tgt sid\<rparr>)"
    unfolding set_rebalance_portfolio action_for_def by blast
next
  show "act \<in> set (rebalance_portfolio uid cur tgt) \<and> ra_action act = ''withdraw'' \<longrightarrow>
        ra_target_amount act - ra_current_amount act < 0"
    unfolding set_rebalance_portfolio action_for_def
    by (auto simp add: dust_threshold_def split: if_splits)
next
  show "distinct (map ra_strategy_id (rebalance_portfolio uid cur tgt))"
    by (rule rebalance_ids_distinct)
next
  show "rebalance_portfolio uid X X = []"
    by (rule rebalance_same)
next
  show "\<bar>lookup_amount tgt sid' - lookup_amount cur sid'\<bar> \<le> dust_threshold \<longrightarrow>
        sid' \<notin> ra_strategy_id ` set (rebalance_portfolio uid cur tgt)"
    unfolding set_rebalance_portfolio action_for_def by auto
qed

theorem rebalance_portfolio_actions_witness:
  "\<lparr>ra_strategy_id = 1, ra_action = ''withdraw'', ra_amount = 3000000000000000000,
     ra_current_amount = 5000000000000000000, ra_target_amount = 2000000000000000000\<rparr>
     \<in> set (rebalance_portfolio 7
            [\<lparr>strategy_id = 1, amount = 5000000000000000000\<rparr>,
             \<lparr>strategy_id = 2, amount = 1000000000000000000\<rparr>]
            [\<lparr>strategy_id = 1, amount = 2000000000000000000\<rparr>,
             \<lparr>strategy_id = 3, amount = 500000000000000\<rparr>])
   \<and> 3 \<notin> ra_strategy_id ` set (rebalance_portfolio 7
            [\<lparr>strategy_id = 1, amount = 5000000000000000000\<rparr>,
             \<lparr>strategy_id = 2, amount = 1000000000000000000\<rparr>]
            [\<lparr>strategy_id = 1, amount = 2000000000000000000\<rparr>,
             \<lparr>strategy_id = 3, amount = 500000000000000\<rparr>])
   \<and> rebalance_portfolio 7 [\<lparr>strategy_id = 1, amount = 5000000000000000000\<rparr>]
         [\<lparr>strategy_id = 1, amount = 5000000000000000000\<rparr>] = []"
  using rebalance_portfolio_actions
    [of "\<lparr>ra_strategy_id = 1, ra_action = ''withdraw'', ra_amount = 3000000000000000000,
          ra_current_amount = 5000000000000000000, ra_target_amount = 2000000000000000000\<rparr>"
        7
        "[\<lparr>strategy_id = 1, amount = 5000000000000000000\<rparr>,
          \<lparr>strategy_id = 2, amount = 1000000000000000000\<rparr>]"
        "[\<lparr>strategy_id = 1, amount = 2000000000000000000\<rparr>,
          \<lparr>strategy_id = 3, amount = 500000000000000\<rparr>]"
        "[\<lparr>strategy_id = 1, amount = 5000000000000000000\<rparr>]"
        3]
  by (simp add: lookup_amount_def dust_threshold_def)

section \<open>Evaluating the rounding\<close>

lemma exponent_search_numeral:
  "exponent_search (numeral k) x e =
     (if 2 \<le> x then exponent_search (pred_numeral k) (x / 2) (e + 1)
      else if x < 1 then exponent_search (pred_numeral k) (x * 2) (e - 1)
      else e)"
  by (simp add: numeral_eq_Suc)

lemmas fl64_eval =
  fl64_def binary_exponent_def exponent_search_numeral pow2_def round_half_even_def Let_def

lemma fl64_one: "fl64 1 = 1"
  by (simp add: fl64_eval)

section \<open>Risk score: the reference definition, the range, the failure value\<close>

lemma protocol_step:
  "(if PyStr p \<in> set [PyStr ''compound'', PyStr ''aave''] then r - 0.2
    else if PyStr p \<in> set [PyStr ''curve''] then r - 0.1
    else if PyStr p \<in> set [PyStr ''uniswap_v3''] then r + 0.1
    else r) = r + protocol_delta p"
  by (simp add: protocol_delta_def)

lemma tvl_step:
  "(if real_of_int tvl > 1000000000000000000000000 then r - 0.1
    else if real_of_int tvl < 10000000000000000000000 then r + 0.1
    else r) = r + tvl_delta tvl"
  by (simp add: tvl_delta_def)

lemma apy_step:
  "(if apy > 0.2 then r + 0.2 else if apy < 0.05 then r - 0.1 else (r::real)) =
     r + apy_delta apy"
  by (simp add: apy_delta_def)

lemma risk_score_body_numeric:
  assumes "data ''protocol'' = Some (PyStr p)" and "data ''tvl'' = Some (PyInt tvl)"
    and "data ''apy'' = Some (PyFloat apy)"
  shows "risk_score_body data = Some (risk_reference p tvl apy)"
proof -
  have g: "dict_get data ''protocol'' (PyStr []) = PyStr p"
    "dict_get data ''tvl'' (PyInt 0) = PyInt tvl"
    "dict_get data ''apy'' (PyInt 0) = PyFloat apy"
    using assms by (simp_all add: dict_get_def)
  show ?thesis
    unfolding risk_score_body_def Let_def g py_num.simps option.case
      protocol_step tvl_step apy_step risk_reference_def
    by (simp only: add.assoc)
qed

lemma risk_score_body_range: "risk_score_body data = Some r \<Longrightarrow> 0 \<le> r \<and> r \<le> 1"
  by (auto simp add: risk_score_body_def Let_def split: option.splits if_splits)

lemma risk_score_body_fails_iff:
  "risk_score_body data = None \<longleftrightarrow>
     py_num (dict_get data ''tvl'' (PyInt 0)) = None \<or>
     py_num (dict_get data ''apy'' (PyInt 0)) = None"
  by (auto simp add: risk_score_body_def Let_def split: option.splits)

text \<open>
  C6: on a protocol string, an integer TVL and a float APY the score is the reference
  definition; on every input, also where a comparison raises, the function returns a
  score in [0, 1], and a failure returns the baseline 0.5. The score is a function of
  the dict alone: the source reads no state, clock or random source.
\<close>

theorem calculate_risk_score_reference:
  "(data ''protocol'' = Some (PyStr p) \<and> data ''tvl'' = Some (PyInt tvl) \<and>
    data ''apy'' = Some (PyFloat apy) \<longrightarrow>
      calculate_risk_score data = risk_reference p tvl apy)
   \<and> 0 \<le> calculate_risk_score data \<and> calculate_risk_score data \<le> 1
   \<and> (risk_score_body data = None \<longrightarrow> calculate_risk_score data = 0.5)"
proof (intro conjI impI)
  assume "data ''protocol'' = Some (PyStr p) \<and> data ''tvl'' = Some (PyInt tvl) \<and>
    data ''apy'' = Some (PyFloat apy)"
  then show "calculate_risk_score data = risk_reference p tvl apy"
    by (simp add: calculate_risk_score_def risk_score_body_numeric)
next
  show "0 \<le> calculate_risk_score data"
    using risk_score_body_range [of data]
    by (cases "risk_score_body data") (simp_all add: calculate_risk_score_def)
next
  show "calculate_risk_score data \<le> 1"
    using risk_score_body_range [of data]
    by (cases "risk_score_body data") (simp_all add: calculate_risk_score_def)
next
  assume "risk_score_body data = None"
  then show "calculate_risk_score data = 0.5"
    by (simp add: calculate_risk_score_def)
qed

theorem calculate_risk_score_reference_witness:
  "calculate_risk_score
     [''protocol'' \<mapsto> PyStr ''uniswap_v3'', ''tvl'' \<mapsto> PyInt 5000000000000000000000,
      ''apy'' \<mapsto> PyFloat 0.25] = 0.9
   \<and> risk_reference ''uniswap_v3'' 5000000000000000000000 0.25 = 0.9
   \<and> calculate_risk_score [''protocol'' \<mapsto> PyStr ''aave'', ''tvl'' \<mapsto> PyNone] = 0.5"
proof -
  let ?d = "[''protocol'' \<mapsto> PyStr ''uniswap_v3'', ''tvl'' \<mapsto> PyInt 5000000000000000000000,
      ''apy'' \<mapsto> PyFloat 0.25]"
  let ?e = "[''protocol'' \<mapsto> PyStr ''aave'', ''tvl'' \<mapsto> PyNone]"
  have ref: "risk_reference ''uniswap_v3'' 5000000000000000000000 0.25 = 0.9"
    by (simp add: risk_reference_def protocol_delta_def tvl_delta_def apy_delta_def)
  have "calculate_risk_score ?d = risk_reference ''uniswap_v3'' 5000000000000000000000 0.25"
    using calculate_risk_score_reference
      [of ?d "''uniswap_v3''" 5000000000000000000000 "0.25"] by simp
  moreover have "risk_score_body ?e = None"
    by (simp add: risk_score_body_fails_iff dict_get_def)
  then have "calculate_risk_score ?e = 0.5"
    using calculate_risk_score_reference [of ?e] by blast
  ultimately show ?thesis using ref by simp
qed

section \<open>Aggregation: a failing source is left out, the others are merged\<close>

lemma dict_update_Nil: "dict_update d [] = d"
  by (simp add: dict_update_def)

lemma fetch_source_source_data:
  "fetch_source h = (case source_data h of None \<Rightarrow> [] | Some ys \<Rightarrow> ys)"
  by (simp add: fetch_source_def source_data_def split: http_outcome.splits sum.splits)

lemma fold_merge_sources:
  "fold (\<lambda>r acc. case r of Inr d \<Rightarrow> dict_update acc d | Inl e \<Rightarrow> acc)
     (map (\<lambda>h. Inr (fetch_source h)) hs) acc =
   fold (\<lambda>d acc. dict_update acc d) (List.map_filter source_data hs) acc"
proof (induction hs arbitrary: acc)
  case Nil
  show ?case by (simp add:)
next
  case (Cons h hs)
  have step: "dict_update acc (fetch_source h) =
      (case source_data h of None \<Rightarrow> acc | Some ys \<Rightarrow> dict_update acc ys)"
    by (simp add: fetch_source_source_data dict_update_Nil split: option.splits)
  show ?case
    by (simp add: step Cons.IH split: option.splits)
qed

lemma process_results_sources:
  "process_results (map (\<lambda>h. Inr (fetch_source h)) hs) =
     merge_all (List.map_filter source_data hs)"
  by (simp add: process_results_def merge_all_def fold_merge_sources)

lemma fetch_all_value:
  "fst (fetch_all_yield_data env st) =
     Inr (merge_all (List.map_filter source_data (sources_of env)))"
proof -
  have "process_results (map (\<lambda>h. Inr (fetch_source h)) (sources_of env)) =
      merge_all (List.map_filter source_data (sources_of env))"
    by (rule process_results_sources)
  then show ?thesis
    by (simp add: fetch_all_yield_data_def sources_of_def Let_def fetch_compound_yields_def
          fetch_uniswap_v3_yields_def fetch_staking_yields_def fetch_aave_yields_def
          fetch_curve_yields_def)
qed

lemma fetch_all_db:
  "db (snd (fetch_all_yield_data env st)) =
     update_database_yields (clock env) (db_fault env) (db st)
       (merge_all (List.map_filter source_data (sources_of env)))"
proof -
  have "process_results (map (\<lambda>h. Inr (fetch_source h)) (sources_of env)) =
      merge_all (List.map_filter source_data (sources_of env))"
    by (rule process_results_sources)
  then show ?thesis
    by (simp add: fetch_all_yield_data_def sources_of_def Let_def fetch_compound_yields_def
          fetch_uniswap_v3_yields_def fetch_staking_yields_def fetch_aave_yields_def
          fetch_curve_yields_def)
qed

text \<open>
  C4: whatever each of the five sources does (the request raises, the status is not
  200, the payload is malformed, or it delivers data), and whatever the cache and the
  database do, the call returns a value and raises nothing, and the value is the merge,
  in source order, of the data of the sources that succeeded; with five sources of
  which one fails it is the merge of the other four.
\<close>

theorem fetch_all_partial_failure:
  "fst (fetch_all_yield_data env st) =
     Inr (merge_all (List.map_filter source_data (sources_of env)))
   \<and> (source_data (compound_http env) = Some c \<and> source_data (uniswap_v3_http env) = Some u \<and>
      source_data (staking_http env) = None \<and> source_data (aave_http env) = Some a \<and>
      source_data (curve_http env) = Some cv \<longrightarrow>
        fst (fetch_all_yield_data env st) = Inr (merge_all [c, u, a, cv]))"
proof (intro conjI impI)
  show "fst (fetch_all_yield_data env st) =
     Inr (merge_all (List.map_filter source_data (sources_of env)))"
    by (rule fetch_all_value)
next
  assume "source_data (compound_http env) = Some c \<and> source_data (uniswap_v3_http env) = Some u \<and>
      source_data (staking_http env) = None \<and> source_data (aave_http env) = Some a \<and>
      source_data (curve_http env) = Some cv"
  then have "List.map_filter source_data (sources_of env) = [c, u, a, cv]"
    by (simp add: sources_of_def)
  then show "fst (fetch_all_yield_data env st) = Inr (merge_all [c, u, a, cv])"
    by (simp add: fetch_all_value)
qed

theorem fetch_all_partial_failure_witness:
  "fst (fetch_all_yield_data
      \<lparr>compound_http = Response 200 (Inr [(''compound_usdc'',
           \<lparr>o_protocol = ''compound'', o_symbol = ''USDC'', o_apy = 0.05,
            o_tvl = 1000000000000000000000000, o_network = ''ethereum'',
            o_timestamp = ''t'', o_metadata = None\<rparr>)]),
       uniswap_v3_http = Response 200 (Inr []),
       staking_http = RequestRaises (ClientError ''timeout''),
       aave_http = Response 200 (Inr [(''aave_dai'',
           \<lparr>o_protocol = ''aave'', o_symbol = ''DAI'', o_apy = 0.04,
            o_tvl = 2000000000000000000000000, o_network = ''ethereum'',
            o_timestamp = ''t'', o_metadata = None\<rparr>)]),
       curve_http = Response 200 (Inr []),
       redis = NoClient, db_fault = None, clock = 0\<rparr>
      \<lparr>db = \<lparr>strategies = [], yield_data = [], optimization_results = []\<rparr>, cache = None\<rparr>) =
   Inr [(''compound_usdc'',
           \<lparr>o_protocol = ''compound'', o_symbol = ''USDC'', o_apy = 0.05,
            o_tvl = 1000000000000000000000000, o_network = ''ethereum'',
            o_timestamp = ''t'', o_metadata = None\<rparr>),
        (''aave_dai'',
           \<lparr>o_protocol = ''aave'', o_symbol = ''DAI'', o_apy = 0.04,
            o_tvl = 2000000000000000000000000, o_network = ''ethereum'',
            o_timestamp = ''t'', o_metadata = None\<rparr>)]"
  using fetch_all_partial_failure
    [of "\<lparr>compound_http = Response 200 (Inr [(''compound_usdc'',
           \<lparr>o_protocol = ''compound'', o_symbol = ''USDC'', o_apy = 0.05,
            o_tvl = 1000000000000000000000000, o_network = ''ethereum'',
            o_timestamp = ''t'', o_metadata = None\<rparr>)]),
       uniswap_v3_http = Response 200 (Inr []),
       staking_http = RequestRaises (ClientError ''timeout''),
       aave_http = Response 200 (Inr [(''aave_dai'',
           \<lparr>o_protocol = ''aave'', o_symbol = ''DAI'', o_apy = 0.04,
            o_tvl = 2000000000000000000000000, o_network = ''ethereum'',
            o_timestamp = ''t'', o_metadata = None\<rparr>)]),
       curve_http = Response 200 (Inr []),
       redis = NoClient, db_fault = None, clock = 0\<rparr>"
      "\<lparr>db = \<lparr>strategies = [], yield_data = [], optimization_results = []\<rparr>, cache = None\<rparr>"
      "[(''compound_usdc'',
           \<lparr>o_protocol = ''compound'', o_symbol = ''USDC'', o_apy = 0.05,
            o_tvl = 1000000000000000000000000, o_network = ''ethereum'',
            o_timestamp = ''t'', o_metadata = None\<rparr>)]"
      "[]"
      "[(''aave_dai'',
           \<lparr>o_protocol = ''aave'', o_symbol = ''DAI'', o_apy = 0.04,
            o_tvl = 2000000000000000000000000, o_network = ''ethereum'',
            o_timestamp = ''t'', o_metadata = None\<rparr>)]"
      "[]"]
  by (simp add: source_data_def merge_all_def dict_update_def sources_of_def
       )


section \<open>Aggregation: a failing database write\<close>

lemma write_entries_fault:
  "k \<le> length ys \<Longrightarrow> \<exists>e. write_entries now (Some k) d ys = Inl e"
proof (induction ys arbitrary: k d)
  case Nil
  then show ?case by simp
next
  case (Cons entry rest)
  show ?case
  proof (cases k)
    case 0
    then show ?thesis by simp
  next
    case (Suc j)
    with Cons.prems have "j \<le> length rest" by simp
    from Cons.IH [OF this] Suc show ?thesis
      by (cases "write_entry now d entry") simp_all
  qed
qed

text \<open>
  C5, as stated, at a run where one source delivers one observation and the database
  is unavailable from the first query on: the write phase fails, and the call returns
  the merged observations as a normal value; no failure reaches the caller.
\<close>

theorem fetch_all_db_failure_returns_normally:
  "write_entries 0 (Some 0) \<lparr>strategies = [], yield_data = [], optimization_results = []\<rparr>
     [(''ethereum_staking'',
        \<lparr>o_protocol = ''staking'', o_symbol = ''ETH2'', o_apy = 0.05,
         o_tvl = 1000000000000000000, o_network = ''ethereum'',
         o_timestamp = ''t'', o_metadata = None\<rparr>)] = Inl (OperationalError ''query'')
   \<and> fetch_all_yield_data
      \<lparr>compound_http = Response 503 (Inr []),
       uniswap_v3_http = Response 200 (Inr []),
       staking_http = Response 200 (Inr [(''ethereum_staking'',
          \<lparr>o_protocol = ''staking'', o_symbol = ''ETH2'', o_apy = 0.05,
           o_tvl = 1000000000000000000, o_network = ''ethereum'',
           o_timestamp = ''t'', o_metadata = None\<rparr>)]),
       aave_http = Response 200 (Inr []),
       curve_http = Response 200 (Inr []),
       redis = NoClient, db_fault = Some 0, clock = 0\<rparr>
      \<lparr>db = \<lparr>strategies = [], yield_data = [], optimization_results = []\<rparr>, cache = None\<rparr> =
     (Inr [(''ethereum_staking'',
          \<lparr>o_protocol = ''staking'', o_symbol = ''ETH2'', o_apy = 0.05,
           o_tvl = 1000000000000000000, o_network = ''ethereum'',
           o_timestamp = ''t'', o_metadata = None\<rparr>)],
      \<lparr>db = \<lparr>strategies = [], yield_data = [], optimization_results = []\<rparr>, cache = None\<rparr>)"
  by (simp add: fetch_all_yield_data_def Let_def fetch_compound_yields_def
        fetch_uniswap_v3_yields_def fetch_staking_yields_def fetch_aave_yields_def
        fetch_curve_yields_def fetch_source_def process_results_def dict_update_def
        cache_yield_data_def update_database_yields_def)

text \<open>
  C5, amended: when the write phase fails (the database is unavailable at a query or at
  the commit, or a flush is refused), the session is rolled back, so the database is
  left as it was before the call, and the error is logged and not raised again: the
  call returns the merged observations as its normal value.
\<close>

theorem fetch_all_db_failure_rolled_back:
  "write_entries (clock env) (db_fault env) (db st)
     (merge_all (List.map_filter source_data (sources_of env))) = Inl e \<Longrightarrow>
   fst (fetch_all_yield_data env st) =
     Inr (merge_all (List.map_filter source_data (sources_of env)))
   \<and> db (snd (fetch_all_yield_data env st)) = db st"
  by (simp add: fetch_all_value fetch_all_db update_database_yields_def)

theorem fetch_all_db_failure_rolled_back_witness:
  "db (snd (fetch_all_yield_data
      \<lparr>compound_http = Response 200 (Inr [(''compound_usdc'',
           \<lparr>o_protocol = ''compound'', o_symbol = ''USDC'', o_apy = 0.05,
            o_tvl = 1000000000000000000, o_network = ''ethereum'',
            o_timestamp = ''t'', o_metadata = None\<rparr>)]),
       uniswap_v3_http = Response 200 (Inr []),
       staking_http = Response 200 (Inr []),
       aave_http = Response 200 (Inr []),
       curve_http = Response 200 (Inr []),
       redis = SetexOk, db_fault = Some 1, clock = 0\<rparr>
      \<lparr>db = \<lparr>strategies = [], yield_data = [], optimization_results = []\<rparr>, cache = None\<rparr>)) =
   \<lparr>strategies = [], yield_data = [], optimization_results = []\<rparr>"
proof -
  let ?obs = "\<lparr>o_protocol = ''compound'', o_symbol = ''USDC'', o_apy = 0.05,
            o_tvl = 1000000000000000000, o_network = ''ethereum'',
            o_timestamp = ''t'', o_metadata = None\<rparr>"
  let ?env = "\<lparr>compound_http = Response 200 (Inr [(''compound_usdc'', ?obs)]),
       uniswap_v3_http = Response 200 (Inr []),
       staking_http = Response 200 (Inr []),
       aave_http = Response 200 (Inr []),
       curve_http = Response 200 (Inr []),
       redis = SetexOk, db_fault = Some 1, clock = 0\<rparr>"
  let ?st = "\<lparr>db = \<lparr>strategies = [], yield_data = [], optimization_results = []\<rparr>,
       cache = None\<rparr>"
  have m: "merge_all (List.map_filter source_data (sources_of ?env)) =
      [(''compound_usdc'', ?obs)]"
    by (simp add: sources_of_def source_data_def merge_all_def
          dict_update_def)
  have "write_entries (clock ?env) (db_fault ?env) (db ?st)
      (merge_all (List.map_filter source_data (sources_of ?env))) =
      Inl (OperationalError ''commit'')"
    unfolding m
    by (simp add: write_entry_def find_strategy_def fits_bigint_def BIGINT_MIN_def
          BIGINT_MAX_def Let_def)
  from fetch_all_db_failure_rolled_back [OF this] show ?thesis by simp
qed

section \<open>Allocation: the requested weights are not read\<close>











section \<open>Allocation: the amounts in binary64 arithmetic\<close>

lemmas optimize_eval =
  optimize_allocations_def calculate_optimal_allocations_def modern_portfolio_theory_def
  mpt_try_def mpt_weights_def mpt_fallback_def make_allocation_def adjusted_ratio_def
  sharpe_ratio_def np_div_def np_sum_def py_int_def predict_yield_def train_model_def
  MIN_AMOUNT_THRESHOLD_def MAX_AMOUNT_THRESHOLD_def fits_bigint_def BIGINT_MIN_def
  BIGINT_MAX_def Let_def

text \<open>
  C9 at a request of 10^18 + 100 wei for one active strategy (apy 0.0625, risk 0.25,
  risk tolerance 0.5): the amount fits the 64-bit column, so the call succeeds. The
  only weight is 1.0, and \<open>int(total_amount * 1.0)\<close> first turns the amount into
  the nearest double, 10^18 + 128. The amount allocated is 28 wei more than the total,
  and it is not \<open>floor(total_amount * weight)\<close>.
\<close>

theorem optimize_allocations_amount_above_total:
  "(case fst (optimize_allocations fl64
       \<lparr>fit = (\<lambda>rows. None), utc_now = 0, utc_hour = 0, utc_weekday = 0\<rparr>
       \<lparr>o_db = \<lparr>strategies =
           [\<lparr>s_id = 1, s_name = ''Compound USDC'', s_type = ''compound'',
             s_contract_address = ''0x39AA'', s_network = ''ethereum'', s_is_active = True,
             s_apy = 1 / 16, s_tvl = 1000000000000000000, s_risk_score = 1 / 4\<rparr>],
          yield_data = [], optimization_results = []\<rparr>,
        o_predictor = \<lparr>is_trained = False, forest = (\<lambda>x. None)\<rparr>\<rparr>
       1000000000000000100
       [\<lparr>sw_strategy_id = 1, sw_weight = Some 1\<rparr>] (1 / 2) (1 / 20)) of
      Inl e \<Rightarrow> []
    | Inr r \<Rightarrow> map (\<lambda>a. (oa_weight a, oa_amount a)) (res_optimal_allocations r)) =
   [(1, 1000000000000000128)]"
  by (simp add: optimize_eval fl64_eval)

text \<open>
  C2 at a request of 10^18 wei (1 ETH) for three active strategies whose apy is 0: all
  blended scores are zero, the fallback runs, and each amount is
  \<open>int(10^18 * (1.0 / 3))\<close> in binary64, which is 333333333333333312 and not
  \<open>floor(10^18 / 3) = 333333333333333333\<close>; the weight is the double nearest to 1/3.
\<close>

theorem optimize_allocations_fallback_amounts:
  "(case fst (optimize_allocations fl64
       \<lparr>fit = (\<lambda>rows. None), utc_now = 0, utc_hour = 0, utc_weekday = 0\<rparr>
       \<lparr>o_db = \<lparr>strategies =
           [\<lparr>s_id = 1, s_name = ''Compound USDC'', s_type = ''compound'',
             s_contract_address = ''0x39AA'', s_network = ''ethereum'', s_is_active = True,
             s_apy = 0, s_tvl = 1000000000000000000000000, s_risk_score = 1 / 4\<rparr>,
            \<lparr>s_id = 2, s_name = ''Uniswap V3 ETH-USDC'', s_type = ''uniswap_v3'',
             s_contract_address = ''0x8ad5'', s_network = ''ethereum'', s_is_active = True,
             s_apy = 0, s_tvl = 500000000000000000000000, s_risk_score = 1 / 2\<rparr>,
            \<lparr>s_id = 3, s_name = ''Aave USDC'', s_type = ''aave'',
             s_contract_address = ''0xBcca'', s_network = ''ethereum'', s_is_active = True,
             s_apy = 0, s_tvl = 2000000000000000000000000, s_risk_score = 1 / 8\<rparr>],
          yield_data = [], optimization_results = []\<rparr>,
        o_predictor = \<lparr>is_trained = False, forest = (\<lambda>x. None)\<rparr>\<rparr>
       1000000000000000000
       [\<lparr>sw_strategy_id = 1, sw_weight = Some (1 / 2)\<rparr>,
        \<lparr>sw_strategy_id = 2, sw_weight = Some (1 / 4)\<rparr>,
        \<lparr>sw_strategy_id = 3, sw_weight = Some (1 / 4)\<rparr>] (1 / 2) (1 / 20)) of
      Inl e \<Rightarrow> []
    | Inr r \<Rightarrow> map (\<lambda>a. (oa_weight a, oa_amount a)) (res_optimal_allocations r)) =
   [(6004799503160661 / 18014398509481984, 333333333333333312),
    (6004799503160661 / 18014398509481984, 333333333333333312),
    (6004799503160661 / 18014398509481984, 333333333333333312)]
   \<and> (1000000000000000000 :: int) div 3 = 333333333333333333"
  by (simp add: optimize_eval fl64_eval)


section \<open>Allocation: a stored yield below zero\<close>

text \<open>
  C1 at a request of 10^18 wei (1 ETH) for two active strategies whose stored apy is
  -0.015625 and 0.078125 (risk 0.25 both, risk tolerance 0.5, predictor untrained, so
  the predicted yield is the stored apy as it is): the call succeeds, and the weights
  are -0.25 and 1.25, the amounts -2.5 * 10^17 and 1.25 * 10^18 wei. The first weight
  is negative.
\<close>

theorem optimize_allocations_negative_weight:
  "(case fst (optimize_allocations fl64
       \<lparr>fit = (\<lambda>rows. None), utc_now = 0, utc_hour = 0, utc_weekday = 0\<rparr>
       \<lparr>o_db = \<lparr>strategies =
           [\<lparr>s_id = 1, s_name = ''Compound USDC'', s_type = ''compound'',
             s_contract_address = ''0x39AA'', s_network = ''ethereum'', s_is_active = True,
             s_apy = - (1 / 64), s_tvl = 1000000000000000000, s_risk_score = 1 / 4\<rparr>,
            \<lparr>s_id = 2, s_name = ''Aave USDC'', s_type = ''aave'',
             s_contract_address = ''0xBcca'', s_network = ''ethereum'', s_is_active = True,
             s_apy = 5 / 64, s_tvl = 2000000000000000000, s_risk_score = 1 / 4\<rparr>],
          yield_data = [], optimization_results = []\<rparr>,
        o_predictor = \<lparr>is_trained = False, forest = (\<lambda>x. None)\<rparr>\<rparr>
       1000000000000000000
       [\<lparr>sw_strategy_id = 1, sw_weight = Some (1 / 2)\<rparr>,
        \<lparr>sw_strategy_id = 2, sw_weight = Some (1 / 2)\<rparr>] (1 / 2) (1 / 20)) of
      Inl e \<Rightarrow> []
    | Inr r \<Rightarrow> map (\<lambda>a. (oa_weight a, oa_amount a)) (res_optimal_allocations r)) =
   [(- (1 / 4), - 250000000000000000), (5 / 4, 1250000000000000000)]"
  by (simp add: optimize_eval fl64_eval)

section \<open>Allocation: the weights in exact arithmetic\<close>

lemma those_map_Some: "those (map Some xs) = Some xs"
  by (induction xs) simp_all

lemma adjusted_ratio_exact:
  "0 \<le> c_risk_score c \<Longrightarrow> adjusted_ratio exact rt c = Some (blended_score rt c)"
  by (simp add: adjusted_ratio_def sharpe_ratio_def np_div_def exact_def blended_score_def)

lemma those_adjusted_exact:
  "\<forall>c\<in>set cs. 0 \<le> c_risk_score c \<Longrightarrow>
   those (map (adjusted_ratio exact rt) cs) = Some (map (blended_score rt) cs)"
proof -
  assume "\<forall>c\<in>set cs. 0 \<le> c_risk_score c"
  then have "map (adjusted_ratio exact rt) cs = map Some (map (blended_score rt) cs)"
    by (simp add: adjusted_ratio_exact)
  then show ?thesis by (simp only: those_map_Some)
qed

lemma fold_add_sum_list: "fold (\<lambda>x s. s + x) xs (a::real) = a + sum_list xs"
  by (induction xs arbitrary: a) simp_all

lemma np_sum_exact: "np_sum exact xs = sum_list xs"
  by (simp add: np_sum_def exact_def fold_add_sum_list)

lemma those_np_div_exact:
  "S \<noteq> 0 \<Longrightarrow> those (map (\<lambda>a. np_div exact a S) xs) = Some (map (\<lambda>a. a / S) xs)"
  by (induction xs) (simp_all add: np_div_def exact_def)

lemma those_np_div_zero:
  "xs \<noteq> [] \<Longrightarrow> those (map (\<lambda>a. np_div exact a 0) xs) = None"
  by (cases xs) (simp_all add: np_div_def)

lemma mpt_weights_exact:
  assumes "\<forall>c\<in>set cs. 0 \<le> c_risk_score c"
  shows "mpt_weights exact rt cs =
     (if sum_list (map (blended_score rt) cs) = 0
      then (if cs = [] then Some [] else None)
      else Some (map (\<lambda>c. blended_score rt c / sum_list (map (blended_score rt) cs)) cs))"
proof (cases "sum_list (map (blended_score rt) cs) = 0")
  case True
  then show ?thesis
    using those_np_div_zero [of "map (blended_score rt) cs"]
    by (cases "cs = []")
      (simp_all add: mpt_weights_def those_adjusted_exact [OF assms] np_sum_exact)
next
  case False
  from those_np_div_exact [OF False, of "map (blended_score rt) cs"] False
  show ?thesis
    by (simp add: mpt_weights_def those_adjusted_exact [OF assms] np_sum_exact comp_def)
qed

lemma map2_make_allocation_weights:
  "length ws = length cs \<Longrightarrow>
   map oa_weight (map2 (make_allocation fl total_amount) cs ws) = ws"
proof (induction cs arbitrary: ws)
  case Nil
  then show ?case by simp
next
  case (Cons c cs)
  then show ?case by (cases ws) (simp_all add: make_allocation_def)
qed

lemma mpt_fallback_weights:
  "map oa_weight (mpt_fallback fl cs total_amount) =
     replicate (length cs) (fl (1 / of_nat (length cs)))"
  by (simp add: mpt_fallback_def Let_def make_allocation_def comp_def map_replicate_const)

lemma blended_score_nonneg:
  "0 \<le> c_expected_yield c \<Longrightarrow> 0 \<le> c_risk_score c \<Longrightarrow> 0 \<le> rt \<Longrightarrow> rt \<le> 1 \<Longrightarrow>
   0 \<le> blended_score rt c"
  by (simp add: blended_score_def)

lemma sum_list_divide: "sum_list (map (\<lambda>x. f x / (S::real)) xs) = sum_list (map f xs) / S"
  by (induction xs) (simp_all add: add_divide_distrib)

lemma mpt_exact_weights:
  assumes ne: "cs \<noteq> []"
    and data: "\<forall>c\<in>set cs. 0 \<le> c_expected_yield c \<and> 0 \<le> c_risk_score c"
    and rt: "0 \<le> rt" "rt \<le> 1"
  shows "\<exists>allocs. modern_portfolio_theory exact cs total_amount rt = Inr allocs
           \<and> length allocs = length cs
           \<and> (\<forall>w\<in>set (map oa_weight allocs). 0 \<le> w)
           \<and> sum_list (map oa_weight allocs) = 1"
proof -
  let ?S = "sum_list (map (blended_score rt) cs)"
  have risk: "\<forall>c\<in>set cs. 0 \<le> c_risk_score c" using data by simp
  have nonneg: "\<forall>c\<in>set cs. 0 \<le> blended_score rt c"
    using data rt by (simp add: blended_score_nonneg)
  then have S0: "0 \<le> ?S" by (auto intro!: sum_list_nonneg)
  show ?thesis
  proof (cases "?S = 0")
    case True
    then have w: "mpt_weights exact rt cs = None"
      using ne by (simp add: mpt_weights_exact [OF risk])
    have n: "0 < length cs" using ne by simp
    let ?allocs = "mpt_fallback exact cs total_amount"
    have "modern_portfolio_theory exact cs total_amount rt = Inr ?allocs"
      using w ne by (simp add: modern_portfolio_theory_def mpt_try_def)
    moreover have "length ?allocs = length cs"
      by (simp add: mpt_fallback_def Let_def)
    moreover have "\<forall>w\<in>set (map oa_weight ?allocs). 0 \<le> w"
      unfolding mpt_fallback_weights by (simp add: exact_def)
    moreover have "sum_list (map oa_weight ?allocs) = 1"
      unfolding mpt_fallback_weights using n by (simp add: exact_def sum_list_replicate)
    ultimately show ?thesis by blast
  next
    case False
    with S0 have Spos: "0 < ?S" by simp
    let ?ws = "map (\<lambda>c. blended_score rt c / ?S) cs"
    let ?allocs = "map2 (make_allocation exact total_amount) cs ?ws"
    have w: "mpt_weights exact rt cs = Some ?ws"
      using False by (simp add: mpt_weights_exact [OF risk])
    have "modern_portfolio_theory exact cs total_amount rt = Inr ?allocs"
      using w by (simp add: modern_portfolio_theory_def mpt_try_def)
    moreover have "length ?allocs = length cs" by simp
    moreover have ow: "map oa_weight ?allocs = ?ws"
      by (rule map2_make_allocation_weights) simp
    moreover have "\<forall>w\<in>set ?ws. 0 \<le> w"
      using nonneg Spos by (auto simp add: divide_nonneg_pos)
    moreover have "sum_list ?ws = 1"
      using False by (simp add: sum_list_divide)
    ultimately show ?thesis by (metis (no_types, lifting))
  qed
qed

lemma predict_yield_nonneg:
  "\<forall>s\<in>set (strategies d). 0 \<le> s_apy s \<Longrightarrow>
   0 \<le> fst (predict_yield fl env d p sid total_amount network)"
  by (auto simp add: predict_yield_def Let_def find_Some_iff split: option.splits)

lemma build_strategy_data_nonneg:
  assumes "\<forall>s\<in>set (strategies d). 0 \<le> s_apy s" and "\<forall>s\<in>set dbs. 0 \<le> s_risk_score s"
  shows "\<forall>c\<in>set (fst (build_strategy_data fl env d dbs total_amount p ws)).
           0 \<le> c_expected_yield c \<and> 0 \<le> c_risk_score c"
proof (induction ws arbitrary: p)
  case Nil
  show ?case by simp
next
  case (Cons sw rest)
  show ?case
  proof (cases "find (\<lambda>s. s_id s = sw_strategy_id sw) dbs")
    case None
    with Cons.IH show ?thesis by simp
  next
    case (Some s)
    then have "s \<in> set dbs"
      by (auto simp add: find_Some_iff)
    with assms(2) have r: "0 \<le> s_risk_score s" by simp
    obtain y p' where py:
      "predict_yield fl env d p (sw_strategy_id sw) total_amount (s_network s) = (y, p')"
      by (cases "predict_yield fl env d p (sw_strategy_id sw) total_amount (s_network s)")
    from predict_yield_nonneg [OF assms(1), of fl env p "sw_strategy_id sw" total_amount "s_network s"] py
    have y: "0 \<le> y" by simp
    from Cons.IH [of p'] Some py r y show ?thesis
      by (auto simp add: Let_def split: prod.splits)
  qed
qed

lemma build_strategy_data_nonempty:
  "\<exists>sw\<in>set ws. \<exists>s\<in>set dbs. s_id s = sw_strategy_id sw \<Longrightarrow>
   fst (build_strategy_data fl env d dbs total_amount p ws) \<noteq> []"
proof (induction ws arbitrary: p)
  case Nil
  then show ?case by simp
next
  case (Cons sw rest)
  show ?case
  proof (cases "find (\<lambda>s. s_id s = sw_strategy_id sw) dbs")
    case None
    then have "\<not> (\<exists>s\<in>set dbs. s_id s = sw_strategy_id sw)"
      by (simp add: find_None_iff)
    with Cons.prems have "\<exists>sw\<in>set rest. \<exists>s\<in>set dbs. s_id s = sw_strategy_id sw"
      by auto
    from Cons.IH [OF this] None show ?thesis by simp
  next
    case (Some s)
    then show ?thesis
      by (simp add: Let_def split: prod.splits)
  qed
qed

text \<open>
  In exact arithmetic, and on a database whose stored yields and risk scores are not
  negative, a request within the bounds that names an active strategy and whose amount
  fits the 64-bit column is answered with weights that are not negative and sum to 1.
  Neither condition is checked by the code: see the stored yield below zero above.
\<close>

lemma optimize_allocations_exact_weights:
  assumes lo: "MIN_AMOUNT_THRESHOLD \<le> total_amount"
    and hi: "total_amount \<le> MAX_AMOUNT_THRESHOLD"
    and col: "fits_bigint total_amount"
    and active: "\<exists>s\<in>set (strategies (o_db st)). s_is_active s \<and> s_id s \<in> sw_strategy_id ` set requested"
    and inv: "\<forall>s\<in>set (strategies (o_db st)). 0 \<le> s_apy s \<and> 0 \<le> s_risk_score s"
    and rt: "0 \<le> rt" "rt \<le> 1"
  shows "\<exists>res st'. optimize_allocations exact env st total_amount requested rt ms = (Inr res, st')
           \<and> res_optimal_allocations res \<noteq> []
           \<and> (\<forall>a\<in>set (res_optimal_allocations res). 0 \<le> oa_weight a)
           \<and> \<bar>sum_list (map oa_weight (res_optimal_allocations res)) - 1\<bar> \<le> 1 / 1000000"
proof -
  let ?dbs = "filter (\<lambda>s. s_id s \<in> set (map sw_strategy_id requested) \<and> s_is_active s)
      (strategies (o_db st))"
  from active have dbs_ne: "?dbs \<noteq> []"
    by (auto simp add: filter_empty_conv)
  have apy: "\<forall>s\<in>set (strategies (o_db st)). 0 \<le> s_apy s" using inv by simp
  have risk: "\<forall>s\<in>set ?dbs. 0 \<le> s_risk_score s" using inv by simp
  from active have match: "\<exists>sw\<in>set requested. \<exists>s\<in>set ?dbs. s_id s = sw_strategy_id sw"
    by auto
  obtain cs p' where b:
    "build_strategy_data exact env (o_db st) ?dbs total_amount (o_predictor st) requested = (cs, p')"
    by (cases "build_strategy_data exact env (o_db st) ?dbs total_amount (o_predictor st) requested")
  from build_strategy_data_nonempty [OF match, of exact env "o_db st" total_amount "o_predictor st"] b
  have cs_ne: "cs \<noteq> []" by simp
  from build_strategy_data_nonneg [OF apy risk, of exact env total_amount "o_predictor st" requested] b
  have data: "\<forall>c\<in>set cs. 0 \<le> c_expected_yield c \<and> 0 \<le> c_risk_score c" by simp
  from mpt_exact_weights [OF cs_ne data rt, of total_amount]
  obtain allocs where m: "modern_portfolio_theory exact cs total_amount rt = Inr allocs"
    and len: "length allocs = length cs"
    and w: "\<forall>w\<in>set (map oa_weight allocs). 0 \<le> w"
    and s: "sum_list (map oa_weight allocs) = 1"
    by blast
  have c: "calculate_optimal_allocations exact env (o_db st) (o_predictor st) total_amount
      requested ?dbs rt = (Inr allocs, p')"
    using b cs_ne m by (simp add: calculate_optimal_allocations_def)
  from len cs_ne have allocs_ne: "allocs \<noteq> []" by auto
  from lo hi col dbs_ne c allocs_ne w s show ?thesis
    by (simp add: optimize_allocations_def Let_def)
qed

section \<open>Validation errors at the endpoint and in the service\<close>

lemma call_with_user_id:
  "call_optimize_allocations
     [''user_id'', ''total_amount'', ''strategies'', ''risk_tolerance'', ''max_slippage'']
     fl env st total_amount requested rt ms =
   (Inl (TypeError ''optimize_allocations() got an unexpected keyword argument''), st)"
  by (simp add: call_optimize_allocations_def optimize_allocations_parameters_def)

lemma optimize_yield_always_500:
  "optimize_yield fl env st request =
     (Inl (HTTPException 500 ''Internal server error''), st)"
  by (simp add: optimize_yield_def optimize_yield_body_def call_with_user_id)

text \<open>
  C3 at the endpoint, for a request with an empty strategy list and for one whose
  weights sum to 1.2 (amount 1000 ETH): the 400 raised by each check is caught by
  \<open>except Exception\<close> of the same \<open>try\<close> and answered as 500 "Internal server
  error", the answer every internal error gets; no row is persisted.
\<close>

theorem optimize_yield_validation_answers_500:
  "optimize_yield fl64
     \<lparr>fit = (\<lambda>rows. None), utc_now = 0, utc_hour = 0, utc_weekday = 0\<rparr>
     \<lparr>o_db = \<lparr>strategies = [], yield_data = [], optimization_results = []\<rparr>,
      o_predictor = \<lparr>is_trained = False, forest = (\<lambda>x. None)\<rparr>\<rparr>
     \<lparr>req_total_amount = 1000000000000000000000, req_strategies = [],
      req_risk_tolerance = 1 / 2, req_max_slippage = 1 / 20\<rparr> =
   (Inl (HTTPException 500 ''Internal server error''),
    \<lparr>o_db = \<lparr>strategies = [], yield_data = [], optimization_results = []\<rparr>,
      o_predictor = \<lparr>is_trained = False, forest = (\<lambda>x. None)\<rparr>\<rparr>)
   \<and> optimize_yield fl64
     \<lparr>fit = (\<lambda>rows. None), utc_now = 0, utc_hour = 0, utc_weekday = 0\<rparr>
     \<lparr>o_db = \<lparr>strategies = [], yield_data = [], optimization_results = []\<rparr>,
      o_predictor = \<lparr>is_trained = False, forest = (\<lambda>x. None)\<rparr>\<rparr>
     \<lparr>req_total_amount = 1000000000000000000000,
      req_strategies = [\<lparr>wi_strategy_id = 1, wi_weight = 3 / 5\<rparr>,
                        \<lparr>wi_strategy_id = 2, wi_weight = 3 / 5\<rparr>],
      req_risk_tolerance = 1 / 2, req_max_slippage = 1 / 20\<rparr> =
   (Inl (HTTPException 500 ''Internal server error''),
    \<lparr>o_db = \<lparr>strategies = [], yield_data = [], optimization_results = []\<rparr>,
      o_predictor = \<lparr>is_trained = False, forest = (\<lambda>x. None)\<rparr>\<rparr>)"
  by (simp add: optimize_yield_always_500)

end
